theory Spec2Isabelle
  imports Main
begin

section \<open>The combined server: session registry and routing\<close>

text \<open>
  A shallow embedding of \<^verbatim>\<open>src/combined-server.ts\<close> (class \<^verbatim>\<open>CombinedMCPServer\<close>).
  The four private records of the class are maps; transports and protocol handlers
  (\<^verbatim>\<open>AnyCrawlMCPServer\<close>) are objects, identified by the number they get when they are
  constructed. What a handler does to its collaborators (the reply it writes, the calls
  it makes on a transport or a protocol handler) is appended to a trace.

  Keys are taken to be ordinary record keys: names inherited from the prototype of a
  JavaScript object (\<^verbatim>\<open>constructor\<close>, \<^verbatim>\<open>toString\<close>, ...) are outside the model.
  The transport and protocol libraries are collaborators: a call on them is recorded and
  taken to return; what a transport does in return (reporting its identifier, closing)
  is a separate step on the state. Every handler changes the maps before its first
  \<^verbatim>\<open>await\<close>, so a handler is one step on the state as well.
\<close>

subsection \<open>Requests, replies and the trace\<close>

text \<open>
  The parts of an Express request the handlers read: \<^verbatim>\<open>req.params.apiKey\<close>,
  \<^verbatim>\<open>req.headers['mcp-session-id']\<close>, \<^verbatim>\<open>req.query.sessionId\<close> and \<^verbatim>\<open>req.body\<close>.
  \<open>None\<close> is \<^verbatim>\<open>undefined\<close>. The body is kept as text; only \<open>isInitializeRequest\<close>, a
  parameter of the model, looks at it.
\<close>

record request =
  params_apiKey :: "string option"
  header_mcp_session_id :: "string option"
  query_sessionId :: "string option"
  req_body :: string

text \<open>
  The JSON envelope of \<^verbatim>\<open>handleMcpPost\<close>:
  \<^verbatim>\<open>{ jsonrpc, error: { code, message }, id }\<close>; \<open>envelope_id = None\<close> is \<^verbatim>\<open>null\<close>.
\<close>

record envelope =
  jsonrpc :: string
  error_code :: int
  error_message :: string
  envelope_id :: "string option"

datatype reply_body = Json envelope | Text string

text \<open>
  \<open>Reply status body\<close> is \<^verbatim>\<open>res.status(status).json(..)\<close> or \<^verbatim>\<open>.send(..)\<close>;
  \<open>HandleRequest t req b\<close> is \<^verbatim>\<open>transport.handleRequest(req, res, b)\<close> on transport \<open>t\<close>
  (\<open>b = None\<close> when the call passes no body);
  \<open>HandlePostMessage t req b\<close> is \<^verbatim>\<open>transport.handlePostMessage(req, res, b)\<close>;
  \<open>ConnectTransport s t\<close> is \<^verbatim>\<open>server.connectTransport(transport)\<close> on handler \<open>s\<close>.
\<close>

datatype effect =
  Reply nat reply_body
| HandleRequest nat request "string option"
| HandlePostMessage nat request string
| ConnectTransport nat nat

subsection \<open>The state of the server\<close>

text \<open>
  \<open>mcpTransports\<close>, \<open>mcpServers\<close>, \<open>sseTransports\<close> and \<open>sseServers\<close> are the fields of the
  class. \<open>sessionId_of t\<close> is the \<^verbatim>\<open>sessionId\<close> property of the streamable transport
  object \<open>t\<close>, \<^verbatim>\<open>undefined\<close> until the transport has initialised. \<open>next_obj\<close> is the
  number the next constructed object gets.
\<close>

record server =
  mcpTransports :: "string \<rightharpoonup> (string \<rightharpoonup> nat)"
  mcpServers :: "string \<rightharpoonup> (string \<rightharpoonup> nat)"
  sseTransports :: "string \<rightharpoonup> (string \<rightharpoonup> nat)"
  sseServers :: "string \<rightharpoonup> nat"
  sessionId_of :: "nat \<Rightarrow> string option"
  next_obj :: nat
  trace :: "effect list"

definition new_server :: server where
  "new_server =
     \<lparr> mcpTransports = Map.empty, mcpServers = Map.empty, sseTransports = Map.empty,
       sseServers = Map.empty, sessionId_of = (\<lambda>_. None), next_obj = 0, trace = [] \<rparr>"

text \<open>JavaScript truthiness of a \<^verbatim>\<open>string | undefined\<close>: defined and not empty.\<close>

fun truthy :: "string option \<Rightarrow> bool" where
  "truthy None = False"
| "truthy (Some s) = (s \<noteq> [])"

text \<open>The key a property access \<^verbatim>\<open>obj[k]\<close> uses: \<^verbatim>\<open>undefined\<close> becomes the text.\<close>

fun property_key :: "string option \<Rightarrow> string" where
  "property_key None = ''undefined''"
| "property_key (Some s) = s"

text \<open>
  \<^verbatim>\<open>m[k][s] = v\<close> and \<^verbatim>\<open>delete m[k][s]\<close> on a two-level record. Every use in the source
  comes after a test that \<^verbatim>\<open>m[k]\<close> exists, so the \<open>None\<close> case (a TypeError in
  JavaScript) is never reached from a handler.
\<close>

definition assign2 ::
  "(string \<rightharpoonup> (string \<rightharpoonup> nat)) \<Rightarrow> string \<Rightarrow> string \<Rightarrow> nat \<Rightarrow> (string \<rightharpoonup> (string \<rightharpoonup> nat))" where
  "assign2 m k s v = (case m k of None \<Rightarrow> m | Some inner \<Rightarrow> m(k \<mapsto> inner(s \<mapsto> v)))"

definition delete2 ::
  "(string \<rightharpoonup> (string \<rightharpoonup> nat)) \<Rightarrow> string \<Rightarrow> string \<Rightarrow> (string \<rightharpoonup> (string \<rightharpoonup> nat))" where
  "delete2 m k s = (case m k of None \<Rightarrow> m | Some inner \<Rightarrow> m(k \<mapsto> inner(s := None)))"

text \<open>\<^verbatim>\<open>m[k] ? m[k][s] : undefined\<close>, which is also \<^verbatim>\<open>m[k]?.[s]\<close>.\<close>

definition lookup2 :: "(string \<rightharpoonup> (string \<rightharpoonup> nat)) \<Rightarrow> string \<Rightarrow> string \<Rightarrow> nat option" where
  "lookup2 m k s = (case m k of None \<Rightarrow> None | Some inner \<Rightarrow> inner s)"

definition emit :: "effect \<Rightarrow> server \<Rightarrow> server" where
  "emit e st = st\<lparr> trace := trace st @ [e] \<rparr>"

subsection \<open>The callbacks of a streamable session\<close>

text \<open>
  \<^verbatim>\<open>onsessioninitialized: (sid) => { .. }\<close> of \<^verbatim>\<open>handleMcpPost\<close>, with the \<^verbatim>\<open>apiKey\<close> and
  the \<^verbatim>\<open>newTransport\<close> it closes over.
\<close>

definition onsessioninitialized :: "string \<Rightarrow> nat \<Rightarrow> string \<Rightarrow> server \<Rightarrow> server" where
  "onsessioninitialized apiKey newTransport sid st =
     (let st1 = (if mcpTransports st apiKey = None
                 then st\<lparr> mcpTransports := (mcpTransports st)(apiKey \<mapsto> Map.empty),
                          mcpServers := (mcpServers st)(apiKey \<mapsto> Map.empty) \<rparr>
                 else st)
      in st1\<lparr> mcpTransports := assign2 (mcpTransports st1) apiKey sid newTransport \<rparr>)"

text \<open>\<^verbatim>\<open>newTransport.onclose = () => { .. }\<close> of \<^verbatim>\<open>handleMcpPost\<close>.\<close>

definition mcp_onclose :: "string \<Rightarrow> nat \<Rightarrow> server \<Rightarrow> server" where
  "mcp_onclose apiKey newTransport st =
     (if truthy (sessionId_of st newTransport) \<and> mcpTransports st apiKey \<noteq> None
      then
        (let sid = property_key (sessionId_of st newTransport);
             st1 = st\<lparr> mcpTransports := delete2 (mcpTransports st) apiKey sid \<rparr>
         in if mcpServers st1 apiKey \<noteq> None
            then st1\<lparr> mcpServers := delete2 (mcpServers st1) apiKey sid \<rparr>
            else st1)
      else st)"

text \<open>
  Modelled from the spec: the streamable transport (an external library, absent from
  the sources) at the end of its initialisation handshake. The specification gives its
  contract: \<^verbatim>\<open>sessionId\<close> is populated asynchronously and reported through a completion
  signal. So the transport sets its own \<^verbatim>\<open>sessionId\<close> to the identifier its generator
  produced and, when that identifier is truthy, calls \<^verbatim>\<open>onsessioninitialized\<close> with it.
\<close>

definition transport_initialized :: "string \<Rightarrow> nat \<Rightarrow> string \<Rightarrow> server \<Rightarrow> server" where
  "transport_initialized apiKey t sid st =
     (let st1 = st\<lparr> sessionId_of := (sessionId_of st)(t := Some sid) \<rparr>
      in if sid \<noteq> [] then onsessioninitialized apiKey t sid st1 else st1)"

subsection \<open>The streamable endpoints\<close>

definition api_key_required :: envelope where
  "api_key_required =
     \<lparr> jsonrpc = ''2.0'', error_code = - 32000,
       error_message = ''Bad Request: API key is required'', envelope_id = None \<rparr>"

definition no_valid_session :: envelope where
  "no_valid_session =
     \<lparr> jsonrpc = ''2.0'', error_code = - 32000,
       error_message = ''Bad Request: No valid session ID provided'', envelope_id = None \<rparr>"

text \<open>
  \<^verbatim>\<open>handleMcpPost\<close>. \<open>isInitializeRequest\<close> is the predicate of the protocol library.
  The handler constructs the transport, then the protocol handler. By the
  specification the identifier of a streamable transport becomes known only when the
  transport completes its handshake, so a transport has no \<^verbatim>\<open>sessionId\<close> when it is
  constructed and \<^verbatim>\<open>newTransport.sessionId ?? 'pending'\<close> reads the field the constructor
  left undefined.
\<close>

definition handleMcpPost :: "(string \<Rightarrow> bool) \<Rightarrow> server \<Rightarrow> request \<Rightarrow> server" where
  "handleMcpPost isInitializeRequest st req =
     (if \<not> truthy (params_apiKey req) then emit (Reply 400 (Json api_key_required)) st
      else
        (let apiKey = property_key (params_apiKey req);
             sessionId = header_mcp_session_id req;
             transport = (if truthy sessionId \<and> mcpTransports st apiKey \<noteq> None
                          then lookup2 (mcpTransports st) apiKey (property_key sessionId)
                          else None)
         in if truthy sessionId \<and> transport \<noteq> None
            then emit (HandleRequest (the transport) req (Some (req_body req))) st
            else if \<not> truthy sessionId \<and> isInitializeRequest (req_body req)
            then
              (let newTransport = next_obj st;
                   server = next_obj st + 1;
                   st1 = st\<lparr> sessionId_of := (sessionId_of st)(newTransport := None),
                            next_obj := next_obj st + 2 \<rparr>;
                   st2 = (if mcpServers st1 apiKey = None
                          then st1\<lparr> mcpServers := (mcpServers st1)(apiKey \<mapsto> Map.empty) \<rparr>
                          else st1);
                   sessionId' = (case sessionId_of st2 newTransport of
                                   None \<Rightarrow> ''pending'' | Some s \<Rightarrow> s);
                   st3 = st2\<lparr> mcpServers := assign2 (mcpServers st2) apiKey sessionId' server \<rparr>;
                   st4 = emit (ConnectTransport server newTransport) st3
               in emit (HandleRequest newTransport req (Some (req_body req))) st4)
            else emit (Reply 400 (Json no_valid_session)) st))"

text \<open>\<^verbatim>\<open>handleMcpSession\<close>, bound to both GET and DELETE on the streamable endpoint.\<close>

definition handleMcpSession :: "server \<Rightarrow> request \<Rightarrow> server" where
  "handleMcpSession st req =
     (if \<not> truthy (params_apiKey req) then emit (Reply 400 (Text ''API key is required'')) st
      else
        (let apiKey = property_key (params_apiKey req);
             sessionId = header_mcp_session_id req
         in if \<not> truthy sessionId \<or> mcpTransports st apiKey = None
               \<or> lookup2 (mcpTransports st) apiKey (property_key sessionId) = None
            then emit (Reply 400 (Text ''Invalid or missing session ID'')) st
            else emit (HandleRequest
                         (the (lookup2 (mcpTransports st) apiKey (property_key sessionId)))
                         req None) st))"

subsection \<open>The event-stream endpoints\<close>

text \<open>
  \<^verbatim>\<open>handleSseGet\<close>. By the specification an event-stream transport has its
  \<^verbatim>\<open>sessionId\<close> from its constructor; \<open>sid\<close> is that identifier, chosen by the
  transport library.
\<close>

definition handleSseGet :: "string \<Rightarrow> server \<Rightarrow> request \<Rightarrow> server" where
  "handleSseGet sid st req =
     (if \<not> truthy (params_apiKey req) then emit (Reply 400 (Text ''API key is required'')) st
      else
        (let apiKey = property_key (params_apiKey req);
             st1 = (if sseServers st apiKey = None
                    then st\<lparr> sseServers := (sseServers st)(apiKey \<mapsto> next_obj st),
                             next_obj := next_obj st + 1 \<rparr>
                    else st);
             st2 = (if sseTransports st1 apiKey = None
                    then st1\<lparr> sseTransports := (sseTransports st1)(apiKey \<mapsto> Map.empty) \<rparr>
                    else st1);
             transport = next_obj st2;
             st3 = st2\<lparr> sessionId_of := (sessionId_of st2)(transport := Some sid),
                      next_obj := next_obj st2 + 1 \<rparr>;
             st4 = st3\<lparr> sseTransports := assign2 (sseTransports st3) apiKey sid transport \<rparr>
         in emit (ConnectTransport (the (sseServers st4 apiKey)) transport) st4))"

text \<open>
  \<^verbatim>\<open>res.on("close", () => { .. })\<close> of \<^verbatim>\<open>handleSseGet\<close>, with the \<^verbatim>\<open>apiKey\<close> and the
  \<^verbatim>\<open>transport\<close> it closes over.
\<close>

definition sse_onclose :: "string \<Rightarrow> nat \<Rightarrow> server \<Rightarrow> server" where
  "sse_onclose apiKey transport st =
     (if sseTransports st apiKey \<noteq> None
      then st\<lparr> sseTransports :=
                 delete2 (sseTransports st) apiKey (property_key (sessionId_of st transport)) \<rparr>
      else st)"

text \<open>\<^verbatim>\<open>handleSseMessages\<close>.\<close>

definition handleSseMessages :: "server \<Rightarrow> request \<Rightarrow> server" where
  "handleSseMessages st req =
     (if \<not> truthy (params_apiKey req) then emit (Reply 400 (Text ''API key is required'')) st
      else
        (let apiKey = property_key (params_apiKey req);
             sessionId = query_sessionId req;
             transport = lookup2 (sseTransports st) apiKey (property_key sessionId)
         in case transport of
              Some t \<Rightarrow> emit (HandlePostMessage t req (req_body req)) st
            | None \<Rightarrow> emit (Reply 400 (Text ''No transport found for sessionId'')) st))"

subsection \<open>The registry as the specification names it\<close>

text \<open>
  The two transport kinds, and \<open>lookup(tenant, sessionId, kind)\<close> read off the map each
  handler consults: \<open>mcpTransports\<close> for the streamable kind, \<open>sseTransports\<close> for the
  event-stream kind.
\<close>

datatype kind = Streamable | EventStream

fun registry_lookup :: "kind \<Rightarrow> server \<Rightarrow> string \<Rightarrow> string \<Rightarrow> nat option" where
  "registry_lookup Streamable st k s = lookup2 (mcpTransports st) k s"
| "registry_lookup EventStream st k s = lookup2 (sseTransports st) k s"

text \<open>The close callback a session of each kind is given when it is admitted.\<close>

fun close_signal :: "kind \<Rightarrow> string \<Rightarrow> nat \<Rightarrow> server \<Rightarrow> server" where
  "close_signal Streamable k t st = mcp_onclose k t st"
| "close_signal EventStream k t st = sse_onclose k t st"

text \<open>The four maps of the class, together.\<close>

definition registry_of ::
  "server \<Rightarrow> (string \<rightharpoonup> (string \<rightharpoonup> nat)) \<times> (string \<rightharpoonup> (string \<rightharpoonup> nat))
             \<times> (string \<rightharpoonup> (string \<rightharpoonup> nat)) \<times> (string \<rightharpoonup> nat)" where
  "registry_of st = (mcpTransports st, mcpServers st, sseTransports st, sseServers st)"

text \<open>
  What a handler appended to the trace, and whether that is a rejection: the handler
  wrote one reply of status 400 itself and called no collaborator.
\<close>

definition effects_of :: "server \<Rightarrow> server \<Rightarrow> effect list" where
  "effects_of st st' = drop (length (trace st)) (trace st')"

fun is_rejection :: "effect list \<Rightarrow> bool" where
  "is_rejection [Reply status body] = (status = 400)"
| "is_rejection es = False"

definition rejected :: "server \<Rightarrow> server \<Rightarrow> bool" where
  "rejected st st' = is_rejection (effects_of st st')"

text \<open>The numeric code of a reply, when the reply is the JSON envelope.\<close>

fun reply_code :: "effect \<Rightarrow> int option" where
  "reply_code (Reply status (Json e)) = Some (error_code e)"
| "reply_code e = None"

subsection \<open>Runs of the server\<close>

text \<open>
  What can happen to the server, one event at a time: a request reaches one of the five
  routes of \<^verbatim>\<open>setupRoutes\<close> (GET and DELETE on the streamable endpoint share a
  handler), or a transport collaborator calls back: it reports its identifier, or its
  connection closes. The callbacks carry the variables their closures captured.
\<close>

datatype event =
  McpPost request
| McpSession request
| SseGet string request
| SseMessages request
| Initialized string nat string
| McpClosed string nat
| SseClosed string nat

fun step :: "(string \<Rightarrow> bool) \<Rightarrow> server \<Rightarrow> event \<Rightarrow> server" where
  "step isInit st (McpPost req) = handleMcpPost isInit st req"
| "step isInit st (McpSession req) = handleMcpSession st req"
| "step isInit st (SseGet sid req) = handleSseGet sid st req"
| "step isInit st (SseMessages req) = handleSseMessages st req"
| "step isInit st (Initialized k t sid) = transport_initialized k t sid st"
| "step isInit st (McpClosed k t) = mcp_onclose k t st"
| "step isInit st (SseClosed k t) = sse_onclose k t st"

definition run :: "(string \<Rightarrow> bool) \<Rightarrow> event list \<Rightarrow> server" where
  "run isInit evs = foldl (step isInit) new_server evs"

text \<open>The \<^verbatim>\<open>connectTransport\<close> calls of a trace, as pairs (handler, transport).\<close>

fun connections :: "effect list \<Rightarrow> (nat \<times> nat) list" where
  "connections [] = []"
| "connections (ConnectTransport s t # es) = (s, t) # connections es"
| "connections (e # es) = connections es"





subsection \<open>Example requests and runs\<close>

definition example_isInitializeRequest :: "string \<Rightarrow> bool" where
  "example_isInitializeRequest b = (b = ''initialize'')"

definition mk_request :: "string option \<Rightarrow> string option \<Rightarrow> string option \<Rightarrow> string \<Rightarrow> request" where
  "mk_request k h q b =
     \<lparr> params_apiKey = k, header_mcp_session_id = h, query_sessionId = q, req_body = b \<rparr>"

definition init_acme :: request where
  "init_acme = mk_request (Some ''acme'') None None ''initialize''"

text \<open>A first streamable admission for tenant \<open>acme\<close>, before and after its transport
  (object 0) has reported the identifier \<open>s1\<close>; then a second one (transport 2, \<open>s2\<close>).\<close>

definition admitted1 :: server where
  "admitted1 = handleMcpPost example_isInitializeRequest new_server init_acme"

definition session1 :: server where
  "session1 = transport_initialized ''acme'' 0 ''s1'' admitted1"

definition admitted2 :: server where
  "admitted2 = handleMcpPost example_isInitializeRequest session1 init_acme"

definition session2 :: server where
  "session2 = transport_initialized ''acme'' 2 ''s2'' admitted2"

text \<open>An event-stream session \<open>e1\<close> for tenant \<open>acme\<close>: handler 0, transport 1.\<close>

definition stream1 :: server where
  "stream1 = handleSseGet ''e1'' new_server (mk_request (Some ''acme'') None None [])"

section \<open>Properties\<close>

subsection \<open>The maps and the trace\<close>

lemma lookup2_assign2:
  "m k \<noteq> None \<Longrightarrow>
   lookup2 (assign2 m k s v) k' s' = (if k' = k \<and> s' = s then Some v else lookup2 m k' s')"
  by (auto simp: lookup2_def assign2_def)

lemma lookup2_delete2:
  "lookup2 (delete2 m k s) k' s' = (if k' = k \<and> s' = s then None else lookup2 m k' s')"
  by (auto simp: lookup2_def delete2_def split: option.splits)

lemma delete2_idem: "delete2 (delete2 m k s) k s = delete2 m k s"
  by (auto simp: delete2_def split: option.splits)

lemma delete2_defined: "(delete2 m k s k' = None) = (m k' = None)"
  by (auto simp: delete2_def split: option.splits)

lemma effects_of_emit: "effects_of st (emit e st) = [e]"
  by (simp add: effects_of_def emit_def)

lemma emit_fields:
  "mcpTransports (emit e st) = mcpTransports st"
  "mcpServers (emit e st) = mcpServers st"
  "sseTransports (emit e st) = sseTransports st"
  "sseServers (emit e st) = sseServers st"
  "sessionId_of (emit e st) = sessionId_of st"
  "next_obj (emit e st) = next_obj st"
  "trace (emit e st) = trace st @ [e]"
  by (simp_all add: emit_def)

lemma post_no_key:
  "\<not> truthy (params_apiKey req) \<Longrightarrow>
   handleMcpPost isInit st req = emit (Reply 400 (Json api_key_required)) st"
  by (simp add: handleMcpPost_def)

lemma post_forward:
  "truthy (params_apiKey req) \<Longrightarrow> truthy (header_mcp_session_id req) \<Longrightarrow>
   lookup2 (mcpTransports st) (property_key (params_apiKey req))
     (property_key (header_mcp_session_id req)) = Some t \<Longrightarrow>
   handleMcpPost isInit st req = emit (HandleRequest t req (Some (req_body req))) st"
  by (auto simp: handleMcpPost_def Let_def lookup2_def split: option.splits)

lemma post_unknown:
  "truthy (params_apiKey req) \<Longrightarrow> truthy (header_mcp_session_id req) \<Longrightarrow>
   lookup2 (mcpTransports st) (property_key (params_apiKey req))
     (property_key (header_mcp_session_id req)) = None \<Longrightarrow>
   handleMcpPost isInit st req = emit (Reply 400 (Json no_valid_session)) st"
  by (auto simp: handleMcpPost_def Let_def lookup2_def split: option.splits)

lemma post_malformed:
  "truthy (params_apiKey req) \<Longrightarrow> \<not> truthy (header_mcp_session_id req) \<Longrightarrow>
   \<not> isInit (req_body req) \<Longrightarrow>
   handleMcpPost isInit st req = emit (Reply 400 (Json no_valid_session)) st"
  by (auto simp: handleMcpPost_def Let_def)

lemma post_admit:
  "truthy (params_apiKey req) \<Longrightarrow> \<not> truthy (header_mcp_session_id req) \<Longrightarrow>
   isInit (req_body req) \<Longrightarrow>
   handleMcpPost isInit st req =
     st\<lparr> mcpServers := (mcpServers st)(property_key (params_apiKey req) \<mapsto>
            (case mcpServers st (property_key (params_apiKey req)) of
               None \<Rightarrow> Map.empty | Some inner \<Rightarrow> inner)(''pending'' \<mapsto> next_obj st + 1)),
         sessionId_of := (sessionId_of st)(next_obj st := None),
         next_obj := next_obj st + 2,
         trace := trace st @ [ConnectTransport (next_obj st + 1) (next_obj st),
                              HandleRequest (next_obj st) req (Some (req_body req))] \<rparr>"
  by (auto simp: handleMcpPost_def Let_def assign2_def emit_def split: option.splits)

lemma post_admit_servers:
  "truthy (params_apiKey req) \<Longrightarrow> \<not> truthy (header_mcp_session_id req) \<Longrightarrow>
   isInit (req_body req) \<Longrightarrow>
   lookup2 (mcpServers (handleMcpPost isInit st req)) k' s' =
     (if k' = property_key (params_apiKey req) \<and> s' = ''pending'' then Some (next_obj st + 1)
      else lookup2 (mcpServers st) k' s')"
  by (auto simp: post_admit lookup2_def split: option.splits)

lemma session_no_key:
  "\<not> truthy (params_apiKey req) \<Longrightarrow>
   handleMcpSession st req = emit (Reply 400 (Text ''API key is required'')) st"
  by (simp add: handleMcpSession_def)

lemma session_unknown:
  "truthy (params_apiKey req) \<Longrightarrow>
   \<not> truthy (header_mcp_session_id req) \<or>
   lookup2 (mcpTransports st) (property_key (params_apiKey req))
     (property_key (header_mcp_session_id req)) = None \<Longrightarrow>
   handleMcpSession st req = emit (Reply 400 (Text ''Invalid or missing session ID'')) st"
  by (auto simp: handleMcpSession_def Let_def lookup2_def split: option.splits)

lemma session_forward:
  "truthy (params_apiKey req) \<Longrightarrow> truthy (header_mcp_session_id req) \<Longrightarrow>
   lookup2 (mcpTransports st) (property_key (params_apiKey req))
     (property_key (header_mcp_session_id req)) = Some t \<Longrightarrow>
   handleMcpSession st req = emit (HandleRequest t req None) st"
  by (auto simp: handleMcpSession_def Let_def lookup2_def split: option.splits)

lemma messages_no_key:
  "\<not> truthy (params_apiKey req) \<Longrightarrow>
   handleSseMessages st req = emit (Reply 400 (Text ''API key is required'')) st"
  by (simp add: handleSseMessages_def)

lemma messages_unknown:
  "truthy (params_apiKey req) \<Longrightarrow>
   lookup2 (sseTransports st) (property_key (params_apiKey req))
     (property_key (query_sessionId req)) = None \<Longrightarrow>
   handleSseMessages st req = emit (Reply 400 (Text ''No transport found for sessionId'')) st"
  by (simp add: handleSseMessages_def Let_def)

lemma messages_forward:
  "truthy (params_apiKey req) \<Longrightarrow>
   lookup2 (sseTransports st) (property_key (params_apiKey req))
     (property_key (query_sessionId req)) = Some t \<Longrightarrow>
   handleSseMessages st req = emit (HandlePostMessage t req (req_body req)) st"
  by (simp add: handleSseMessages_def Let_def)

lemma sse_get_no_key:
  "\<not> truthy (params_apiKey req) \<Longrightarrow>
   handleSseGet sid st req = emit (Reply 400 (Text ''API key is required'')) st"
  by (simp add: handleSseGet_def)

lemma sse_get_effects:
  "truthy (params_apiKey req) \<Longrightarrow>
   effects_of st (handleSseGet sid st req) =
     [ConnectTransport
        (case sseServers st (property_key (params_apiKey req)) of
           None \<Rightarrow> next_obj st | Some s \<Rightarrow> s)
        (case sseServers st (property_key (params_apiKey req)) of
           None \<Rightarrow> next_obj st + 1 | Some s \<Rightarrow> next_obj st)]"
  by (auto simp: handleSseGet_def Let_def effects_of_def emit_def split: option.splits)



subsection \<open>The close callbacks\<close>

lemma mcp_onclose_idem: "mcp_onclose k t (mcp_onclose k t st) = mcp_onclose k t st"
  by (auto simp: mcp_onclose_def Let_def delete2_idem delete2_defined)

lemma sse_onclose_idem: "sse_onclose k t (sse_onclose k t st) = sse_onclose k t st"
  by (auto simp: sse_onclose_def delete2_idem delete2_defined)

lemma mcp_onclose_lookup:
  "lookup2 (mcpTransports (mcp_onclose k t st)) k' s' =
     (if truthy (sessionId_of st t) \<and> mcpTransports st k \<noteq> None
         \<and> k' = k \<and> s' = property_key (sessionId_of st t)
      then None else lookup2 (mcpTransports st) k' s')"
  by (auto simp: mcp_onclose_def Let_def lookup2_delete2)

lemma mcp_onclose_servers:
  "lookup2 (mcpServers (mcp_onclose k t st)) k' s' =
     (if truthy (sessionId_of st t) \<and> mcpTransports st k \<noteq> None
         \<and> k' = k \<and> s' = property_key (sessionId_of st t)
      then None else lookup2 (mcpServers st) k' s')"
  by (auto simp: mcp_onclose_def Let_def lookup2_delete2) (simp add: lookup2_def)

lemma mcp_onclose_fields:
  "sseTransports (mcp_onclose k t st) = sseTransports st"
  "sseServers (mcp_onclose k t st) = sseServers st"
  "sessionId_of (mcp_onclose k t st) = sessionId_of st"
  "next_obj (mcp_onclose k t st) = next_obj st"
  "trace (mcp_onclose k t st) = trace st"
  by (simp_all add: mcp_onclose_def Let_def)

lemma sse_onclose_lookup:
  "lookup2 (sseTransports (sse_onclose k t st)) k' s' =
     (if k' = k \<and> s' = property_key (sessionId_of st t)
      then None else lookup2 (sseTransports st) k' s')"
  by (auto simp: sse_onclose_def lookup2_delete2) (simp add: lookup2_def)

lemma sse_onclose_fields:
  "mcpTransports (sse_onclose k t st) = mcpTransports st"
  "mcpServers (sse_onclose k t st) = mcpServers st"
  "sseServers (sse_onclose k t st) = sseServers st"
  "sessionId_of (sse_onclose k t st) = sessionId_of st"
  "next_obj (sse_onclose k t st) = next_obj st"
  "trace (sse_onclose k t st) = trace st"
  by (simp_all add: sse_onclose_def)

subsection \<open>Objects along a run\<close>


lemma sse_get_admit_new:
  "truthy (params_apiKey req) \<Longrightarrow> sseServers st (property_key (params_apiKey req)) = None \<Longrightarrow>
   handleSseGet sid st req =
     st\<lparr> sseTransports := (sseTransports st)(property_key (params_apiKey req) \<mapsto>
            (case sseTransports st (property_key (params_apiKey req)) of
               None \<Rightarrow> Map.empty | Some inner \<Rightarrow> inner)(sid \<mapsto> next_obj st + 1)),
         sseServers := (sseServers st)(property_key (params_apiKey req) \<mapsto> next_obj st),
         sessionId_of := (sessionId_of st)(next_obj st + 1 := Some sid),
         next_obj := next_obj st + 2,
         trace := trace st @ [ConnectTransport (next_obj st) (next_obj st + 1)] \<rparr>"
  by (auto simp: handleSseGet_def Let_def assign2_def emit_def split: option.splits)

lemma sse_get_admit_old:
  "truthy (params_apiKey req) \<Longrightarrow> sseServers st (property_key (params_apiKey req)) = Some h \<Longrightarrow>
   handleSseGet sid st req =
     st\<lparr> sseTransports := (sseTransports st)(property_key (params_apiKey req) \<mapsto>
            (case sseTransports st (property_key (params_apiKey req)) of
               None \<Rightarrow> Map.empty | Some inner \<Rightarrow> inner)(sid \<mapsto> next_obj st)),
         sessionId_of := (sessionId_of st)(next_obj st := Some sid),
         next_obj := next_obj st + 1,
         trace := trace st @ [ConnectTransport h (next_obj st)] \<rparr>"
  by (auto simp: handleSseGet_def Let_def assign2_def emit_def split: option.splits)



















lemma run_snoc: "run isInit (evs @ [ev]) = step isInit (run isInit evs) ev"
  by (simp add: run_def)






lemma onsessioninitialized_lookup:
  "lookup2 (mcpTransports (onsessioninitialized k t sid st)) k' s' =
     (if k' = k \<and> s' = sid then Some t else lookup2 (mcpTransports st) k' s')"
  by (auto simp: onsessioninitialized_def Let_def lookup2_def assign2_def split: option.splits)

lemma sse_get_other_keys:
  "truthy (params_apiKey req) \<Longrightarrow> (k', s') \<noteq> (property_key (params_apiKey req), sid) \<Longrightarrow>
   lookup2 (sseTransports (handleSseGet sid st req)) k' s' = lookup2 (sseTransports st) k' s'"
  by (cases "sseServers st (property_key (params_apiKey req))")
     (auto simp: sse_get_admit_new sse_get_admit_old lookup2_def split: option.splits)

lemma sse_get_inserted:
  "truthy (params_apiKey req) \<Longrightarrow>
   lookup2 (sseTransports (handleSseGet sid st req)) (property_key (params_apiKey req)) sid =
     Some (if sseServers st (property_key (params_apiKey req)) = None
           then next_obj st + 1 else next_obj st)"
  by (cases "sseServers st (property_key (params_apiKey req))")
     (simp_all add: sse_get_admit_new sse_get_admit_old lookup2_def)

lemma step_handler_keys:
  assumes "\<forall>k s. lookup2 (mcpServers st) k s \<noteq> None \<longrightarrow> s = ''pending''"
  shows "\<forall>k s. lookup2 (mcpServers (step isInit st ev)) k s \<noteq> None \<longrightarrow> s = ''pending''"
proof (cases ev)
  case (McpPost req)
  have other: "mcpServers (handleMcpPost isInit st req) = mcpServers st"
    if "\<not> (truthy (params_apiKey req) \<and> \<not> truthy (header_mcp_session_id req)
           \<and> isInit (req_body req))"
  proof (cases "truthy (params_apiKey req)")
    case False
    then show ?thesis by (simp add: post_no_key emit_fields)
  next
    case key: True
    show ?thesis
    proof (cases "truthy (header_mcp_session_id req)")
      case hdr: True
      show ?thesis
        using key hdr
        by (cases "lookup2 (mcpTransports st) (property_key (params_apiKey req))
                     (property_key (header_mcp_session_id req))")
           (simp_all add: post_unknown post_forward emit_fields)
    next
      case False
      with key that show ?thesis by (simp add: post_malformed emit_fields)
    qed
  qed
  show ?thesis
  proof (cases "truthy (params_apiKey req) \<and> \<not> truthy (header_mcp_session_id req)
           \<and> isInit (req_body req)")
    case True
    with assms McpPost show ?thesis by (simp add: post_admit_servers)
  next
    case False
    with assms McpPost other show ?thesis by simp
  qed
next
  case (McpSession req)
  with assms show ?thesis by (simp add: handleMcpSession_def Let_def emit_fields)
next
  case (SseGet sid req)
  have "mcpServers (handleSseGet sid st req) = mcpServers st"
    by (simp add: handleSseGet_def Let_def emit_fields)
  with assms SseGet show ?thesis by simp
next
  case (SseMessages req)
  with assms show ?thesis
    by (simp add: handleSseMessages_def Let_def emit_fields split: option.splits)
next
  case (Initialized k t sid)
  have "lookup2 (mcpServers (transport_initialized k t sid st)) k' s' \<noteq> None \<Longrightarrow>
        lookup2 (mcpServers st) k' s' \<noteq> None" for k' s'
    by (auto simp: transport_initialized_def onsessioninitialized_def Let_def lookup2_def
          split: if_splits option.splits)
  with assms Initialized show ?thesis by simp blast
next
  case (McpClosed k t)
  with assms show ?thesis by (simp add: mcp_onclose_servers)
next
  case (SseClosed k t)
  with assms show ?thesis by (simp add: sse_onclose_fields)
qed

lemma handler_keys_pending:
  "lookup2 (mcpServers (run isInit evs)) k s = Some h \<Longrightarrow> s = ''pending''"
proof -
  have "\<forall>k s. lookup2 (mcpServers (foldl (step isInit) st evs)) k s \<noteq> None \<longrightarrow> s = ''pending''"
    if "\<forall>k s. lookup2 (mcpServers st) k s \<noteq> None \<longrightarrow> s = ''pending''" for st
    using that
  proof (induction evs arbitrary: st)
    case Nil
    then show ?case by simp
  next
    case (Cons ev evs)
    from Cons.prems have "\<forall>k s. lookup2 (mcpServers (step isInit st ev)) k s \<noteq> None \<longrightarrow> s = ''pending''"
      by (rule step_handler_keys)
    then show ?case using Cons.IH by simp
  qed
  moreover have "\<forall>k s. lookup2 (mcpServers new_server) k s \<noteq> None \<longrightarrow> s = ''pending''"
    by (simp add: new_server_def lookup2_def)
  ultimately have "\<forall>k s. lookup2 (mcpServers (run isInit evs)) k s \<noteq> None \<longrightarrow> s = ''pending''"
    unfolding run_def by simp
  then show "lookup2 (mcpServers (run isInit evs)) k s = Some h \<Longrightarrow> s = ''pending''"
    by blast
qed

subsection \<open>The example runs, evaluated\<close>

lemma init_acme_fields:
  "params_apiKey init_acme = Some ''acme''"
  "header_mcp_session_id init_acme = None"
  "query_sessionId init_acme = None"
  "req_body init_acme = ''initialize''"
  "example_isInitializeRequest ''initialize''"
  by (simp_all add: init_acme_def mk_request_def example_isInitializeRequest_def)

lemma admitted1_eq:
  "admitted1 =
     \<lparr> mcpTransports = Map.empty, mcpServers = [''acme'' \<mapsto> [''pending'' \<mapsto> 1]],
       sseTransports = Map.empty, sseServers = Map.empty, sessionId_of = (\<lambda>_. None),
       next_obj = 2,
       trace = [ConnectTransport 1 0, HandleRequest 0 init_acme (Some ''initialize'')] \<rparr>"
  by (simp add: admitted1_def post_admit init_acme_fields) (simp add: new_server_def)

lemma session1_eq:
  "session1 =
     \<lparr> mcpTransports = [''acme'' \<mapsto> [''s1'' \<mapsto> 0]], mcpServers = [''acme'' \<mapsto> Map.empty],
       sseTransports = Map.empty, sseServers = Map.empty, sessionId_of = [0 \<mapsto> ''s1''],
       next_obj = 2,
       trace = [ConnectTransport 1 0, HandleRequest 0 init_acme (Some ''initialize'')] \<rparr>"
  by (simp add: session1_def admitted1_eq transport_initialized_def onsessioninitialized_def
        assign2_def Let_def)

lemma admitted2_eq:
  "admitted2 =
     \<lparr> mcpTransports = [''acme'' \<mapsto> [''s1'' \<mapsto> 0]],
       mcpServers = [''acme'' \<mapsto> [''pending'' \<mapsto> 3]],
       sseTransports = Map.empty, sseServers = Map.empty,
       sessionId_of = [0 \<mapsto> ''s1''],
       next_obj = 4,
       trace = [ConnectTransport 1 0, HandleRequest 0 init_acme (Some ''initialize''),
                ConnectTransport 3 2, HandleRequest 2 init_acme (Some ''initialize'')] \<rparr>"
  by (simp add: admitted2_def post_admit init_acme_fields) (simp add: session1_eq)

lemma session2_eq:
  "session2 =
     \<lparr> mcpTransports = [''acme'' \<mapsto> [''s1'' \<mapsto> 0, ''s2'' \<mapsto> 2]],
       mcpServers = [''acme'' \<mapsto> [''pending'' \<mapsto> 3]],
       sseTransports = Map.empty, sseServers = Map.empty,
       sessionId_of = [0 \<mapsto> ''s1'', 2 \<mapsto> ''s2''],
       next_obj = 4,
       trace = [ConnectTransport 1 0, HandleRequest 0 init_acme (Some ''initialize''),
                ConnectTransport 3 2, HandleRequest 2 init_acme (Some ''initialize'')] \<rparr>"
  by (simp add: session2_def admitted2_eq transport_initialized_def onsessioninitialized_def
        assign2_def Let_def)

lemma stream1_eq:
  "stream1 =
     \<lparr> mcpTransports = Map.empty, mcpServers = Map.empty,
       sseTransports = [''acme'' \<mapsto> [''e1'' \<mapsto> 1]], sseServers = [''acme'' \<mapsto> 0],
       sessionId_of = [1 \<mapsto> ''e1''], next_obj = 2,
       trace = [ConnectTransport 0 1] \<rparr>"
  by (simp add: stream1_def sse_get_admit_new mk_request_def new_server_def)

subsection \<open>Admission on the streamable endpoint\<close>



subsection \<open>Session identifiers that do not resolve\<close>



subsection \<open>The close signal\<close>

text \<open>
  C3. A session of either kind that is registered under its transport's own identifier
  is absent from the registry once its close callback has run. The callback changes no
  lookup at any other key or of the other kind, no entry of the handler map at another
  key, and nothing in \<open>sseServers\<close>. Running it a second time changes nothing, and
  running it for an entry that is already absent changes no lookup; the callback has no
  failing branch.
\<close>

theorem close_signal_removes_entry:
  "(registry_lookup kind st k (property_key (sessionId_of st t)) = Some t
      \<and> (kind = Streamable \<longrightarrow> truthy (sessionId_of st t)) \<longrightarrow>
      registry_lookup kind (close_signal kind k t st) k (property_key (sessionId_of st t)) = None)
   \<and> (\<forall>kind' k' s'. (kind', k', s') \<noteq> (kind, k, property_key (sessionId_of st t)) \<longrightarrow>
         registry_lookup kind' (close_signal kind k t st) k' s' = registry_lookup kind' st k' s')
   \<and> (\<forall>k' s'. (k', s') \<noteq> (k, property_key (sessionId_of st t)) \<longrightarrow>
         lookup2 (mcpServers (close_signal kind k t st)) k' s' = lookup2 (mcpServers st) k' s')
   \<and> sseServers (close_signal kind k t st) = sseServers st
   \<and> close_signal kind k t (close_signal kind k t st) = close_signal kind k t st
   \<and> (registry_lookup kind st k (property_key (sessionId_of st t)) = None \<longrightarrow>
        (\<forall>kind' k' s'.
           registry_lookup kind' (close_signal kind k t st) k' s' = registry_lookup kind' st k' s'))"
proof (cases kind)
  case Streamable
  have other: "registry_lookup kind' (mcp_onclose k t st) k' s' = registry_lookup kind' st k' s'"
    if "(kind', k', s') \<noteq> (Streamable, k, property_key (sessionId_of st t))" for kind' k' s'
    using that by (cases kind') (auto simp: mcp_onclose_lookup mcp_onclose_fields)
  have absent: "registry_lookup kind' (mcp_onclose k t st) k' s' = registry_lookup kind' st k' s'"
    if "lookup2 (mcpTransports st) k (property_key (sessionId_of st t)) = None" for kind' k' s'
    using that by (cases kind') (auto simp: mcp_onclose_lookup mcp_onclose_fields)
  have removed: "lookup2 (mcpTransports (mcp_onclose k t st)) k (property_key (sessionId_of st t)) = None"
    if "lookup2 (mcpTransports st) k (property_key (sessionId_of st t)) = Some t"
      and "truthy (sessionId_of st t)"
  proof -
    from that(1) have "mcpTransports st k \<noteq> None"
      by (auto simp: lookup2_def split: option.splits)
    with that(2) show ?thesis by (simp add: mcp_onclose_lookup)
  qed
  show ?thesis
    using other absent removed
    by (simp add: Streamable mcp_onclose_idem mcp_onclose_fields mcp_onclose_servers)
next
  case EventStream
  have other: "registry_lookup kind' (sse_onclose k t st) k' s' = registry_lookup kind' st k' s'"
    if "(kind', k', s') \<noteq> (EventStream, k, property_key (sessionId_of st t))" for kind' k' s'
    using that by (cases kind') (auto simp: sse_onclose_lookup sse_onclose_fields)
  have absent: "registry_lookup kind' (sse_onclose k t st) k' s' = registry_lookup kind' st k' s'"
    if "lookup2 (sseTransports st) k (property_key (sessionId_of st t)) = None" for kind' k' s'
    using that by (cases kind') (auto simp: sse_onclose_lookup sse_onclose_fields)
  show ?thesis
    using other absent
    by (simp add: EventStream sse_onclose_idem sse_onclose_fields sse_onclose_lookup)
qed

theorem close_signal_removes_entry_witness:
  "registry_lookup Streamable session2 ''acme'' (property_key (sessionId_of session2 2)) = Some 2
   \<and> truthy (sessionId_of session2 2)
   \<and> registry_lookup Streamable (close_signal Streamable ''acme'' 2 session2) ''acme'' ''s2'' = None
   \<and> registry_lookup Streamable (close_signal Streamable ''acme'' 2 session2) ''acme'' ''s1'' = Some 0
   \<and> close_signal Streamable ''acme'' 2 (close_signal Streamable ''acme'' 2 session2)
       = close_signal Streamable ''acme'' 2 session2
   \<and> registry_lookup Streamable (close_signal Streamable ''acme'' 2 session2) ''acme''
        (property_key (sessionId_of (close_signal Streamable ''acme'' 2 session2) 2)) = None
   \<and> registry_lookup Streamable
        (close_signal Streamable ''acme'' 2 (close_signal Streamable ''acme'' 2 session2))
        ''acme'' ''s1'' = Some 0
   \<and> registry_lookup EventStream stream1 ''acme'' (property_key (sessionId_of stream1 1)) = Some 1
   \<and> registry_lookup EventStream (close_signal EventStream ''acme'' 1 stream1) ''acme'' ''e1'' = None
   \<and> sseServers (close_signal EventStream ''acme'' 1 stream1) ''acme'' = Some 0"
proof -
  define closed where "closed = close_signal Streamable ''acme'' 2 session2"
  have a: "registry_lookup Streamable session2 ''acme'' (property_key (sessionId_of session2 2)) = Some 2"
    "truthy (sessionId_of session2 2)" "sessionId_of session2 2 = Some ''s2''"
    "registry_lookup Streamable session2 ''acme'' ''s1'' = Some 0"
    by (simp_all add: session2_eq lookup2_def)
  have b: "registry_lookup EventStream stream1 ''acme'' (property_key (sessionId_of stream1 1)) = Some 1"
    "sessionId_of stream1 1 = Some ''e1''" "sseServers stream1 ''acme'' = Some 0"
    by (simp_all add: stream1_eq lookup2_def)
  note streamable = close_signal_removes_entry [of Streamable session2 "''acme''" 2]
  note stream = close_signal_removes_entry [of EventStream stream1 "''acme''" 1]
  note again = close_signal_removes_entry [of Streamable closed "''acme''" 2]
  from streamable a
  have gone: "registry_lookup Streamable closed ''acme'' ''s2'' = None"
    by (simp add: closed_def)
  from streamable a
  have frame: "\<forall>kind' k' s'. (kind', k', s') \<noteq> (Streamable, ''acme'', ''s2'') \<longrightarrow>
          registry_lookup kind' closed k' s' = registry_lookup kind' session2 k' s'"
    by (simp add: closed_def)
  from frame [rule_format, of Streamable "''acme''" "''s1''"] a
  have kept: "registry_lookup Streamable closed ''acme'' ''s1'' = Some 0"
    by simp
  have sid: "sessionId_of closed 2 = Some ''s2''"
    using a by (simp add: closed_def mcp_onclose_fields)
  from again gone sid
  have "\<forall>kind' k' s'.
          registry_lookup kind' (close_signal Streamable ''acme'' 2 closed) k' s'
            = registry_lookup kind' closed k' s'"
    by simp
  then have twice: "registry_lookup Streamable (close_signal Streamable ''acme'' 2 closed) ''acme'' ''s1''
            = registry_lookup Streamable closed ''acme'' ''s1''"
    by (rule allE [where x = Streamable]) simp
  from streamable stream a b gone kept sid twice show ?thesis
    unfolding closed_def [symmetric] by simp
qed

subsection \<open>The key of the handler map\<close>

text \<open>
  C4 on the code. Tenant \<open>acme\<close> is admitted twice on the streamable endpoint, and each
  transport reports its identifier (\<open>s1\<close> for transport 0, \<open>s2\<close> for transport 2). The
  handler of an admission is stored under the key \<open>pending\<close> and no later step moves it:
  in no run does the handler map hold a handler under another key.
  After the first identifier is reported the tenant's handler map is empty (the callback
  resets it together with the new transport sub-map), so handler 1 is under no key. After
  the second, transport 2 is registered under \<open>s2\<close> while its handler 3 is still under
  \<open>pending\<close> and nothing is under \<open>s2\<close>; it is still there when the session has closed.
\<close>

theorem handler_left_under_pending:
  "lookup2 (mcpServers admitted1) ''acme'' ''pending'' = Some 1
   \<and> lookup2 (mcpTransports session1) ''acme'' ''s1'' = Some 0
   \<and> mcpServers session1 ''acme'' = Some Map.empty
   \<and> lookup2 (mcpTransports session2) ''acme'' ''s2'' = Some 2
   \<and> sessionId_of session2 2 = Some ''s2''
   \<and> lookup2 (mcpServers session2) ''acme'' ''s2'' = None
   \<and> lookup2 (mcpServers session2) ''acme'' ''pending'' = Some 3
   \<and> lookup2 (mcpTransports (mcp_onclose ''acme'' 2 session2)) ''acme'' ''s2'' = None
   \<and> lookup2 (mcpServers (mcp_onclose ''acme'' 2 session2)) ''acme'' ''pending'' = Some 3"
  by (simp add: mcp_onclose_lookup mcp_onclose_servers)
     (simp add: admitted1_eq session1_eq session2_eq lookup2_def)

subsection \<open>Which handler serves a transport\<close>




subsection \<open>Endpoints that only reference a session\<close>



subsection \<open>Rejections leave the registry alone\<close>

text \<open>
  C7. A request ends in a routing error exactly in these cases: on the streamable POST,
  the tenant key is missing or empty, or a session identifier is given that does not
  resolve, or none is given and the body is not an initialize message; on GET and DELETE,
  the tenant key or the session identifier is missing or the identifier does not resolve;
  on stream-open, the tenant key is missing; on a stream message, the tenant key is
  missing or the identifier does not resolve. Every such rejection leaves the four maps
  as they were and constructs nothing. With a missing tenant key each handler replies
  before it reads any map: its result is the given state with the reply appended.
\<close>

theorem rejections_leave_registry:
  "(rejected st (handleMcpPost isInit st req)
      \<longrightarrow> registry_of (handleMcpPost isInit st req) = registry_of st
          \<and> next_obj (handleMcpPost isInit st req) = next_obj st)
   \<and> (rejected st (handleMcpSession st req)
      \<longrightarrow> registry_of (handleMcpSession st req) = registry_of st
          \<and> next_obj (handleMcpSession st req) = next_obj st)
   \<and> (rejected st (handleSseGet sid st req)
      \<longrightarrow> registry_of (handleSseGet sid st req) = registry_of st
          \<and> next_obj (handleSseGet sid st req) = next_obj st)
   \<and> (rejected st (handleSseMessages st req)
      \<longrightarrow> registry_of (handleSseMessages st req) = registry_of st
          \<and> next_obj (handleSseMessages st req) = next_obj st)
   \<and> rejected st (handleMcpPost isInit st req) =
       (\<not> truthy (params_apiKey req)
        \<or> truthy (header_mcp_session_id req)
           \<and> lookup2 (mcpTransports st) (property_key (params_apiKey req))
                (property_key (header_mcp_session_id req)) = None
        \<or> \<not> truthy (header_mcp_session_id req) \<and> \<not> isInit (req_body req))
   \<and> rejected st (handleMcpSession st req) =
       (\<not> truthy (params_apiKey req) \<or> \<not> truthy (header_mcp_session_id req)
        \<or> lookup2 (mcpTransports st) (property_key (params_apiKey req))
                (property_key (header_mcp_session_id req)) = None)
   \<and> rejected st (handleSseGet sid st req) = (\<not> truthy (params_apiKey req))
   \<and> rejected st (handleSseMessages st req) =
       (\<not> truthy (params_apiKey req)
        \<or> lookup2 (sseTransports st) (property_key (params_apiKey req))
                (property_key (query_sessionId req)) = None)
   \<and> (\<not> truthy (params_apiKey req)
      \<longrightarrow> handleMcpPost isInit st req = emit (Reply 400 (Json api_key_required)) st
          \<and> handleMcpSession st req = emit (Reply 400 (Text ''API key is required'')) st
          \<and> handleSseGet sid st req = emit (Reply 400 (Text ''API key is required'')) st
          \<and> handleSseMessages st req = emit (Reply 400 (Text ''API key is required'')) st)"
proof -
  have frame: "registry_of (emit e st) = registry_of st \<and> next_obj (emit e st) = next_obj st" for e
    by (simp add: registry_of_def emit_fields)
  have post_iff: "rejected st (handleMcpPost isInit st req) =
       (\<not> truthy (params_apiKey req)
        \<or> truthy (header_mcp_session_id req)
           \<and> lookup2 (mcpTransports st) (property_key (params_apiKey req))
                (property_key (header_mcp_session_id req)) = None
        \<or> \<not> truthy (header_mcp_session_id req) \<and> \<not> isInit (req_body req))"
   and post: "rejected st (handleMcpPost isInit st req)
      \<longrightarrow> registry_of (handleMcpPost isInit st req) = registry_of st
          \<and> next_obj (handleMcpPost isInit st req) = next_obj st"
  proof -
    consider (nokey) "\<not> truthy (params_apiKey req)"
      | (fwd) t where "truthy (params_apiKey req)" "truthy (header_mcp_session_id req)"
          "lookup2 (mcpTransports st) (property_key (params_apiKey req))
             (property_key (header_mcp_session_id req)) = Some t"
      | (unknown) "truthy (params_apiKey req)" "truthy (header_mcp_session_id req)"
          "lookup2 (mcpTransports st) (property_key (params_apiKey req))
             (property_key (header_mcp_session_id req)) = None"
      | (admit) "truthy (params_apiKey req)" "\<not> truthy (header_mcp_session_id req)"
          "isInit (req_body req)"
      | (malformed) "truthy (params_apiKey req)" "\<not> truthy (header_mcp_session_id req)"
          "\<not> isInit (req_body req)"
      by (cases "lookup2 (mcpTransports st) (property_key (params_apiKey req))
             (property_key (header_mcp_session_id req))") auto
    then have "rejected st (handleMcpPost isInit st req) =
       (\<not> truthy (params_apiKey req)
        \<or> truthy (header_mcp_session_id req)
           \<and> lookup2 (mcpTransports st) (property_key (params_apiKey req))
                (property_key (header_mcp_session_id req)) = None
        \<or> \<not> truthy (header_mcp_session_id req) \<and> \<not> isInit (req_body req))
      \<and> (rejected st (handleMcpPost isInit st req)
      \<longrightarrow> registry_of (handleMcpPost isInit st req) = registry_of st
          \<and> next_obj (handleMcpPost isInit st req) = next_obj st)"
    proof cases
      case nokey
      then show ?thesis by (simp add: post_no_key rejected_def effects_of_emit frame)
    next
      case fwd
      then show ?thesis by (simp add: post_forward rejected_def effects_of_emit frame)
    next
      case unknown
      then show ?thesis by (simp add: post_unknown rejected_def effects_of_emit frame)
    next
      case admit
      then show ?thesis by (simp add: post_admit rejected_def effects_of_def)
    next
      case malformed
      then show ?thesis by (simp add: post_malformed rejected_def effects_of_emit frame)
    qed
    then show "rejected st (handleMcpPost isInit st req) =
       (\<not> truthy (params_apiKey req)
        \<or> truthy (header_mcp_session_id req)
           \<and> lookup2 (mcpTransports st) (property_key (params_apiKey req))
                (property_key (header_mcp_session_id req)) = None
        \<or> \<not> truthy (header_mcp_session_id req) \<and> \<not> isInit (req_body req))"
      and "rejected st (handleMcpPost isInit st req)
      \<longrightarrow> registry_of (handleMcpPost isInit st req) = registry_of st
          \<and> next_obj (handleMcpPost isInit st req) = next_obj st"
      by simp_all
  qed
  have session: "registry_of (handleMcpSession st req) = registry_of st
              \<and> next_obj (handleMcpSession st req) = next_obj st"
    by (simp add: handleMcpSession_def Let_def frame)
  have session_iff: "rejected st (handleMcpSession st req) =
       (\<not> truthy (params_apiKey req) \<or> \<not> truthy (header_mcp_session_id req)
        \<or> lookup2 (mcpTransports st) (property_key (params_apiKey req))
                (property_key (header_mcp_session_id req)) = None)"
    by (auto simp: handleMcpSession_def Let_def rejected_def effects_of_emit lookup2_def)
  have messages: "registry_of (handleSseMessages st req) = registry_of st
              \<and> next_obj (handleSseMessages st req) = next_obj st"
    by (simp add: handleSseMessages_def Let_def frame split: option.splits)
  have messages_iff: "rejected st (handleSseMessages st req) =
       (\<not> truthy (params_apiKey req)
        \<or> lookup2 (sseTransports st) (property_key (params_apiKey req))
                (property_key (query_sessionId req)) = None)"
    by (auto simp: handleSseMessages_def Let_def rejected_def effects_of_emit
          split: option.splits)
  have sse_iff: "rejected st (handleSseGet sid st req) = (\<not> truthy (params_apiKey req))"
    by (cases "truthy (params_apiKey req)")
       (simp_all add: sse_get_no_key sse_get_effects rejected_def effects_of_emit)
  have sse: "rejected st (handleSseGet sid st req)
      \<longrightarrow> registry_of (handleSseGet sid st req) = registry_of st
          \<and> next_obj (handleSseGet sid st req) = next_obj st"
    by (simp add: sse_iff sse_get_no_key frame)
  have nokey: "\<not> truthy (params_apiKey req)
      \<longrightarrow> handleMcpPost isInit st req = emit (Reply 400 (Json api_key_required)) st
          \<and> handleMcpSession st req = emit (Reply 400 (Text ''API key is required'')) st
          \<and> handleSseGet sid st req = emit (Reply 400 (Text ''API key is required'')) st
          \<and> handleSseMessages st req = emit (Reply 400 (Text ''API key is required'')) st"
    by (simp add: post_no_key session_no_key sse_get_no_key messages_no_key)
  from post session sse messages post_iff session_iff sse_iff messages_iff nokey
  show ?thesis by (intro conjI) simp_all
qed

theorem rejections_leave_registry_witness:
  "rejected session1
     (handleMcpPost example_isInitializeRequest session1
        (mk_request (Some ''acme'') (Some ''s9'') None ''initialize''))
   \<and> registry_of
        (handleMcpPost example_isInitializeRequest session1
           (mk_request (Some ''acme'') (Some ''s9'') None ''initialize''))
       = registry_of session1
   \<and> rejected session1
        (handleMcpPost example_isInitializeRequest session1
           (mk_request (Some ''acme'') None None ''ping''))
   \<and> registry_of
        (handleMcpPost example_isInitializeRequest session1
           (mk_request (Some ''acme'') None None ''ping''))
       = registry_of session1
   \<and> rejected session1 (handleMcpSession session1 (mk_request (Some ''acme'') None None []))
   \<and> registry_of (handleMcpSession session1 (mk_request (Some ''acme'') None None []))
       = registry_of session1
   \<and> \<not> truthy (params_apiKey (mk_request (Some []) None None ''initialize''))
   \<and> rejected stream1 (handleSseGet ''e2'' stream1 (mk_request (Some []) None None ''initialize''))
   \<and> registry_of (handleSseGet ''e2'' stream1 (mk_request (Some []) None None ''initialize''))
       = registry_of stream1
   \<and> rejected stream1
        (handleSseMessages stream1 (mk_request (Some ''acme'') None (Some ''e9'') ''ping''))
   \<and> registry_of
        (handleSseMessages stream1 (mk_request (Some ''acme'') None (Some ''e9'') ''ping''))
       = registry_of stream1
   \<and> handleMcpPost example_isInitializeRequest stream1
        (mk_request (Some []) None None ''initialize'')
       = emit (Reply 400 (Json api_key_required)) stream1"
proof -
  let ?unknown = "mk_request (Some ''acme'') (Some ''s9'') None ''initialize''"
  let ?malformed = "mk_request (Some ''acme'') None None ''ping''"
  let ?bare = "mk_request (Some ''acme'') None None []"
  let ?nokey = "mk_request (Some []) None None ''initialize''"
  let ?msg = "mk_request (Some ''acme'') None (Some ''e9'') ''ping''"
  have l: "lookup2 (mcpTransports session1) ''acme'' ''s9'' = None"
    "lookup2 (sseTransports stream1) ''acme'' ''e9'' = None"
    by (simp_all add: session1_eq stream1_eq lookup2_def)
  have p: "\<not> example_isInitializeRequest ''ping''"
    by (simp add: example_isInitializeRequest_def)
  from rejections_leave_registry [of session1 example_isInitializeRequest ?unknown] l
  have a: "rejected session1 (handleMcpPost example_isInitializeRequest session1 ?unknown)
     \<and> registry_of (handleMcpPost example_isInitializeRequest session1 ?unknown)
         = registry_of session1"
    by (simp add: mk_request_def)
  from rejections_leave_registry [of session1 example_isInitializeRequest ?malformed] p
  have b: "rejected session1 (handleMcpPost example_isInitializeRequest session1 ?malformed)
     \<and> registry_of (handleMcpPost example_isInitializeRequest session1 ?malformed)
         = registry_of session1"
    by (simp add: mk_request_def)
  from rejections_leave_registry [of session1 example_isInitializeRequest ?bare]
  have c: "rejected session1 (handleMcpSession session1 ?bare)
     \<and> registry_of (handleMcpSession session1 ?bare) = registry_of session1"
    by (simp add: mk_request_def)
  have k: "\<not> truthy (params_apiKey ?nokey)"
    by (simp add: mk_request_def)
  from rejections_leave_registry [of stream1 example_isInitializeRequest ?nokey "''e2''"] k
  have d: "rejected stream1 (handleSseGet ''e2'' stream1 ?nokey)
     \<and> registry_of (handleSseGet ''e2'' stream1 ?nokey) = registry_of stream1
     \<and> handleMcpPost example_isInitializeRequest stream1 ?nokey
         = emit (Reply 400 (Json api_key_required)) stream1"
    by blast
  from rejections_leave_registry [of stream1 example_isInitializeRequest ?msg] l
  have e: "rejected stream1 (handleSseMessages stream1 ?msg)
     \<and> registry_of (handleSseMessages stream1 ?msg) = registry_of stream1"
    by (simp add: mk_request_def)
  from a b c d e k show ?thesis
    by blast
qed

subsection \<open>Inserting at an occupied key\<close>

text \<open>
  C8, as stated, fails. The identifier callback, run for transport 2 with the identifier
  \<open>s1\<close> that transport 0 of the same tenant is registered under, replaces the entry and
  appends nothing to the trace; a stream-open whose transport carries the identifier
  \<open>e1\<close> of a registered stream session replaces that entry and goes on to connect the
  new transport.
\<close>

theorem occupied_slot_replaced:
  "lookup2 (mcpTransports admitted2) ''acme'' ''s1'' = Some 0
   \<and> lookup2 (mcpTransports (onsessioninitialized ''acme'' 2 ''s1'' admitted2)) ''acme'' ''s1''
       = Some 2
   \<and> trace (onsessioninitialized ''acme'' 2 ''s1'' admitted2) = trace admitted2
   \<and> lookup2 (sseTransports stream1) ''acme'' ''e1'' = Some 1
   \<and> lookup2 (sseTransports
        (handleSseGet ''e1'' stream1 (mk_request (Some ''acme'') None None []))) ''acme'' ''e1''
       = Some 2
   \<and> effects_of stream1 (handleSseGet ''e1'' stream1 (mk_request (Some ''acme'') None None []))
       = [ConnectTransport 0 2]"
proof -
  have a: "lookup2 (mcpTransports admitted2) ''acme'' ''s1'' = Some 0"
    by (simp add: admitted2_eq lookup2_def)
  have b: "trace (onsessioninitialized ''acme'' 2 ''s1'' admitted2) = trace admitted2"
    by (simp add: onsessioninitialized_def Let_def)
  have c: "lookup2 (sseTransports stream1) ''acme'' ''e1'' = Some 1"
    "sseServers stream1 ''acme'' = Some 0" "next_obj stream1 = 2"
    by (simp_all add: stream1_eq lookup2_def)
  have d: "lookup2 (sseTransports
        (handleSseGet ''e1'' stream1 (mk_request (Some ''acme'') None None []))) ''acme'' ''e1''
       = Some 2"
    using sse_get_inserted [of "mk_request (Some ''acme'') None None []" "''e1''" stream1] c
    by (simp add: mk_request_def)
  have e: "effects_of stream1 (handleSseGet ''e1'' stream1 (mk_request (Some ''acme'') None None []))
       = [ConnectTransport 0 2]"
    using c by (simp add: sse_get_effects mk_request_def)
  from a b c d e show ?thesis
    by (simp add: onsessioninitialized_lookup)
qed

text \<open>
  C8, amended. No insert tests whether its key is occupied. When the key (tenant,
  identifier) already holds a transport, the identifier callback of the streamable kind
  and the stream-open handler store the new transport there all the same: the entry
  that was there is replaced, every other lookup is as before, and the operation
  completes as it does on a free key (the callback appends nothing to the trace; the
  stream-open handler connects the new transport and is not a rejection).
\<close>

theorem inserts_replace_silently:
  "(lookup2 (mcpTransports st) k sid = Some t0 \<longrightarrow>
      lookup2 (mcpTransports (onsessioninitialized k t sid st)) k sid = Some t
      \<and> (\<forall>k' s'. (k', s') \<noteq> (k, sid) \<longrightarrow>
            lookup2 (mcpTransports (onsessioninitialized k t sid st)) k' s'
              = lookup2 (mcpTransports st) k' s')
      \<and> trace (onsessioninitialized k t sid st) = trace st)
   \<and> (truthy (params_apiKey req)
       \<and> lookup2 (sseTransports st) (property_key (params_apiKey req)) sid = Some t0 \<longrightarrow>
      lookup2 (sseTransports (handleSseGet sid st req)) (property_key (params_apiKey req)) sid =
        Some (if sseServers st (property_key (params_apiKey req)) = None
              then next_obj st + 1 else next_obj st)
      \<and> (\<forall>k' s'. (k', s') \<noteq> (property_key (params_apiKey req), sid) \<longrightarrow>
            lookup2 (sseTransports (handleSseGet sid st req)) k' s'
              = lookup2 (sseTransports st) k' s')
      \<and> \<not> rejected st (handleSseGet sid st req)
      \<and> connections (effects_of st (handleSseGet sid st req)) =
          [(case sseServers st (property_key (params_apiKey req)) of
              None \<Rightarrow> next_obj st | Some s \<Rightarrow> s,
            if sseServers st (property_key (params_apiKey req)) = None
            then next_obj st + 1 else next_obj st)])"
proof -
  have a: "trace (onsessioninitialized k t sid st) = trace st"
    by (simp add: onsessioninitialized_def Let_def)
  have b: "\<not> rejected st (handleSseGet sid st req)
      \<and> connections (effects_of st (handleSseGet sid st req)) =
          [(case sseServers st (property_key (params_apiKey req)) of
              None \<Rightarrow> next_obj st | Some s \<Rightarrow> s,
            if sseServers st (property_key (params_apiKey req)) = None
            then next_obj st + 1 else next_obj st)]"
    if "truthy (params_apiKey req)"
    using that by (auto simp: sse_get_effects rejected_def split: option.splits)
  have c: "lookup2 (sseTransports (handleSseGet sid st req)) k' s'
              = lookup2 (sseTransports st) k' s'"
    if "truthy (params_apiKey req)" "(k', s') \<noteq> (property_key (params_apiKey req), sid)"
    for k' s'
    using that by (rule sse_get_other_keys)
  show ?thesis
    using a b c by (simp add: onsessioninitialized_lookup sse_get_inserted)
qed

theorem inserts_replace_silently_witness:
  "lookup2 (mcpTransports admitted2) ''acme'' ''s1'' = Some 0
   \<and> lookup2 (mcpTransports (onsessioninitialized ''acme'' 2 ''s1'' admitted2)) ''acme'' ''s1''
       = Some 2
   \<and> truthy (params_apiKey (mk_request (Some ''acme'') None None []))
   \<and> lookup2 (sseTransports stream1) ''acme'' ''e1'' = Some 1
   \<and> lookup2 (sseTransports
        (handleSseGet ''e1'' stream1 (mk_request (Some ''acme'') None None []))) ''acme'' ''e1''
       = Some 2
   \<and> \<not> rejected stream1 (handleSseGet ''e1'' stream1 (mk_request (Some ''acme'') None None []))"
proof -
  let ?open = "mk_request (Some ''acme'') None None []"
  have a: "lookup2 (mcpTransports admitted2) ''acme'' ''s1'' = Some 0"
    by (simp add: admitted2_eq lookup2_def)
  have c: "lookup2 (sseTransports stream1) ''acme'' ''e1'' = Some 1"
    "sseServers stream1 ''acme'' = Some 0" "next_obj stream1 = 2"
    by (simp_all add: stream1_eq lookup2_def)
  have k: "truthy (params_apiKey ?open)" "property_key (params_apiKey ?open) = ''acme''"
    by (simp_all add: mk_request_def)
  from inserts_replace_silently [of admitted2 "''acme''" "''s1''" 0 2 ?open] a
  have m: "lookup2 (mcpTransports (onsessioninitialized ''acme'' 2 ''s1'' admitted2)) ''acme'' ''s1''
       = Some 2"
    by simp
  from inserts_replace_silently [of stream1 "''acme''" "''e1''" 1 0 ?open] c k
  have s: "lookup2 (sseTransports (handleSseGet ''e1'' stream1 ?open)) ''acme'' ''e1'' = Some 2
     \<and> \<not> rejected stream1 (handleSseGet ''e1'' stream1 ?open)"
    by simp
  from a c k m s show ?thesis by blast
qed

subsection \<open>The replies of a rejection\<close>

text \<open>
  C9, as stated, fails. GET on the streamable endpoint without a session identifier is
  rejected with a plain text body, not with the JSON envelope; and the two rejections
  of the streamable POST, for a missing tenant key and for an identifier that does not
  resolve, carry the same numeric code.
\<close>

theorem rejections_not_uniform:
  "effects_of new_server (handleMcpSession new_server (mk_request (Some ''acme'') None None [])) =
     [Reply 400 (Text ''Invalid or missing session ID'')]
   \<and> reply_code (Reply 400 (Text ''Invalid or missing session ID'')) = None
   \<and> map reply_code
        (effects_of new_server
           (handleMcpPost example_isInitializeRequest new_server
              (mk_request None None None ''initialize''))) = [Some (- 32000)]
   \<and> map reply_code
        (effects_of new_server
           (handleMcpPost example_isInitializeRequest new_server
              (mk_request (Some ''acme'') (Some ''s9'') None ''initialize''))) = [Some (- 32000)]"
  by (simp add: session_unknown post_no_key post_unknown mk_request_def effects_of_emit
        new_server_def lookup2_def api_key_required_def no_valid_session_def)

text \<open>
  C9, amended. Every rejection of the streamable POST is a reply of status 400 whose
  body is the JSON envelope: protocol version \<^verbatim>\<open>2.0\<close>, an error object with a numeric
  code and a message, and a null id. Both of its rejections use the one code -32000 and
  differ in the message. Every rejection of the other endpoints (GET and DELETE on the
  streamable endpoint, stream-open, stream message) is a reply of status 400 with a
  plain text body.
\<close>

theorem rejection_reply_shapes:
  "(rejected st (handleMcpPost isInit st req) \<longrightarrow>
      effects_of st (handleMcpPost isInit st req) =
        [Reply 400 (Json \<lparr> jsonrpc = ''2.0'', error_code = - 32000,
            error_message = (if truthy (params_apiKey req)
                             then ''Bad Request: No valid session ID provided''
                             else ''Bad Request: API key is required''),
            envelope_id = None \<rparr>)])
   \<and> (rejected st (handleMcpSession st req) \<longrightarrow>
      effects_of st (handleMcpSession st req) =
        [Reply 400 (Text (if truthy (params_apiKey req) then ''Invalid or missing session ID''
                          else ''API key is required''))])
   \<and> (rejected st (handleSseGet sid st req) \<longrightarrow>
      effects_of st (handleSseGet sid st req) = [Reply 400 (Text ''API key is required'')])
   \<and> (rejected st (handleSseMessages st req) \<longrightarrow>
      effects_of st (handleSseMessages st req) =
        [Reply 400 (Text (if truthy (params_apiKey req) then ''No transport found for sessionId''
                          else ''API key is required''))])"
proof -
  have post: "effects_of st (handleMcpPost isInit st req) =
        [Reply 400 (Json \<lparr> jsonrpc = ''2.0'', error_code = - 32000,
            error_message = (if truthy (params_apiKey req)
                             then ''Bad Request: No valid session ID provided''
                             else ''Bad Request: API key is required''),
            envelope_id = None \<rparr>)]"
    if r: "rejected st (handleMcpPost isInit st req)"
  proof -
    consider (nokey) "\<not> truthy (params_apiKey req)"
      | (fwd) t where "truthy (params_apiKey req)" "truthy (header_mcp_session_id req)"
          "lookup2 (mcpTransports st) (property_key (params_apiKey req))
             (property_key (header_mcp_session_id req)) = Some t"
      | (unknown) "truthy (params_apiKey req)" "truthy (header_mcp_session_id req)"
          "lookup2 (mcpTransports st) (property_key (params_apiKey req))
             (property_key (header_mcp_session_id req)) = None"
      | (admit) "truthy (params_apiKey req)" "\<not> truthy (header_mcp_session_id req)"
          "isInit (req_body req)"
      | (malformed) "truthy (params_apiKey req)" "\<not> truthy (header_mcp_session_id req)"
          "\<not> isInit (req_body req)"
      by (cases "lookup2 (mcpTransports st) (property_key (params_apiKey req))
             (property_key (header_mcp_session_id req))") auto
    then show ?thesis
    proof cases
      case nokey
      then show ?thesis by (simp add: post_no_key effects_of_emit api_key_required_def)
    next
      case fwd
      with r show ?thesis by (simp add: post_forward rejected_def effects_of_emit)
    next
      case unknown
      then show ?thesis by (simp add: post_unknown effects_of_emit no_valid_session_def)
    next
      case admit
      with r show ?thesis by (simp add: post_admit rejected_def effects_of_def)
    next
      case malformed
      then show ?thesis by (simp add: post_malformed effects_of_emit no_valid_session_def)
    qed
  qed
  have session: "effects_of st (handleMcpSession st req) =
        [Reply 400 (Text (if truthy (params_apiKey req) then ''Invalid or missing session ID''
                          else ''API key is required''))]"
    if "rejected st (handleMcpSession st req)"
    using that
    by (auto simp: handleMcpSession_def Let_def rejected_def effects_of_emit split: if_splits)
  have sse: "effects_of st (handleSseGet sid st req) = [Reply 400 (Text ''API key is required'')]"
    if "rejected st (handleSseGet sid st req)"
    using that
    by (cases "truthy (params_apiKey req)")
       (simp_all add: sse_get_no_key sse_get_effects rejected_def effects_of_emit)
  have messages: "effects_of st (handleSseMessages st req) =
        [Reply 400 (Text (if truthy (params_apiKey req) then ''No transport found for sessionId''
                          else ''API key is required''))]"
    if "rejected st (handleSseMessages st req)"
    using that
    by (auto simp: handleSseMessages_def Let_def rejected_def effects_of_emit
          split: if_splits option.splits)
  from post session sse messages show ?thesis by blast
qed

theorem rejection_reply_shapes_witness:
  "rejected session1
     (handleMcpPost example_isInitializeRequest session1
        (mk_request (Some ''acme'') (Some ''s9'') None ''initialize''))
   \<and> effects_of session1
        (handleMcpPost example_isInitializeRequest session1
           (mk_request (Some ''acme'') (Some ''s9'') None ''initialize'')) =
       [Reply 400 (Json \<lparr> jsonrpc = ''2.0'', error_code = - 32000,
           error_message = ''Bad Request: No valid session ID provided'',
           envelope_id = None \<rparr>)]
   \<and> rejected session1
        (handleMcpPost example_isInitializeRequest session1
           (mk_request None None None ''initialize''))
   \<and> effects_of session1
        (handleMcpPost example_isInitializeRequest session1
           (mk_request None None None ''initialize'')) =
       [Reply 400 (Json \<lparr> jsonrpc = ''2.0'', error_code = - 32000,
           error_message = ''Bad Request: API key is required'',
           envelope_id = None \<rparr>)]
   \<and> rejected session1 (handleMcpSession session1 (mk_request (Some ''acme'') None None []))
   \<and> effects_of session1 (handleMcpSession session1 (mk_request (Some ''acme'') None None [])) =
       [Reply 400 (Text ''Invalid or missing session ID'')]
   \<and> rejected stream1 (handleSseGet ''e2'' stream1 (mk_request None None None []))
   \<and> effects_of stream1 (handleSseGet ''e2'' stream1 (mk_request None None None [])) =
       [Reply 400 (Text ''API key is required'')]
   \<and> rejected stream1
        (handleSseMessages stream1 (mk_request (Some ''acme'') None (Some ''e9'') ''ping''))
   \<and> effects_of stream1
        (handleSseMessages stream1 (mk_request (Some ''acme'') None (Some ''e9'') ''ping'')) =
       [Reply 400 (Text ''No transport found for sessionId'')]"
proof -
  let ?unknown = "mk_request (Some ''acme'') (Some ''s9'') None ''initialize''"
  let ?nokey = "mk_request None None None ''initialize''"
  let ?bare = "mk_request (Some ''acme'') None None []"
  let ?open = "mk_request None None None []"
  let ?msg = "mk_request (Some ''acme'') None (Some ''e9'') ''ping''"
  have l: "lookup2 (mcpTransports session1) ''acme'' ''s9'' = None"
    "lookup2 (sseTransports stream1) ''acme'' ''e9'' = None"
    by (simp_all add: session1_eq stream1_eq lookup2_def)
  have r1: "rejected session1 (handleMcpPost example_isInitializeRequest session1 ?unknown)"
    using l by (simp add: post_unknown mk_request_def rejected_def effects_of_emit)
  have r2: "rejected session1 (handleMcpPost example_isInitializeRequest session1 ?nokey)"
    by (simp add: post_no_key mk_request_def rejected_def effects_of_emit)
  have r3: "rejected session1 (handleMcpSession session1 ?bare)"
    by (simp add: session_unknown mk_request_def rejected_def effects_of_emit)
  have r4: "rejected stream1 (handleSseGet ''e2'' stream1 ?open)"
    by (simp add: sse_get_no_key mk_request_def rejected_def effects_of_emit)
  have r5: "rejected stream1 (handleSseMessages stream1 ?msg)"
    using l by (simp add: messages_unknown mk_request_def rejected_def effects_of_emit)
  have t: "truthy (params_apiKey ?unknown)" "\<not> truthy (params_apiKey ?nokey)"
    "truthy (params_apiKey ?bare)" "truthy (params_apiKey ?msg)"
    by (simp_all add: mk_request_def)
  from rejection_reply_shapes [of session1 example_isInitializeRequest ?unknown] r1 t
  have a: "effects_of session1 (handleMcpPost example_isInitializeRequest session1 ?unknown) =
       [Reply 400 (Json \<lparr> jsonrpc = ''2.0'', error_code = - 32000,
           error_message = ''Bad Request: No valid session ID provided'',
           envelope_id = None \<rparr>)]"
    by simp
  from rejection_reply_shapes [of session1 example_isInitializeRequest ?nokey] r2 t
  have b: "effects_of session1 (handleMcpPost example_isInitializeRequest session1 ?nokey) =
       [Reply 400 (Json \<lparr> jsonrpc = ''2.0'', error_code = - 32000,
           error_message = ''Bad Request: API key is required'',
           envelope_id = None \<rparr>)]"
    by simp
  from rejection_reply_shapes [of session1 example_isInitializeRequest ?bare] r3 t
  have c: "effects_of session1 (handleMcpSession session1 ?bare) =
       [Reply 400 (Text ''Invalid or missing session ID'')]"
    by simp
  from rejection_reply_shapes [of stream1 example_isInitializeRequest ?open "''e2''"] r4
  have d: "effects_of stream1 (handleSseGet ''e2'' stream1 ?open) =
       [Reply 400 (Text ''API key is required'')]"
    by simp
  from rejection_reply_shapes [of stream1 example_isInitializeRequest ?msg] r5 t
  have e: "effects_of stream1 (handleSseMessages stream1 ?msg) =
       [Reply 400 (Text ''No transport found for sessionId'')]"
    by simp
  from r1 r2 r3 r4 r5 a b c d e show ?thesis
    by blast
qed

subsection \<open>Closing before the identifier is known\<close>

text \<open>
  C10. When the close callback of a streamable transport runs while the transport's
  \<^verbatim>\<open>sessionId\<close> is still undefined, or while the tenant has no sub-map in
  \<^verbatim>\<open>mcpTransports\<close>, the guard of the callback fails: nothing is deleted, no error is
  possible, and the whole state, so the transport map and the server map, is as before.
\<close>

theorem mcp_onclose_guard:
  "sessionId_of st t = None \<or> mcpTransports st apiKey = None
     \<Longrightarrow> mcp_onclose apiKey t st = st"
  by (auto simp: mcp_onclose_def)

theorem mcp_onclose_guard_witness:
  "sessionId_of admitted1 0 = None \<and> mcpTransports admitted1 ''acme'' = None
   \<and> mcpServers admitted1 ''acme'' = Some [''pending'' \<mapsto> 1]
   \<and> mcp_onclose ''acme'' 0 admitted1 = admitted1
   \<and> sessionId_of session1 0 = Some ''s1'' \<and> mcpTransports session1 ''zeta'' = None
   \<and> mcp_onclose ''zeta'' 0 session1 = session1"
proof -
  have a: "sessionId_of admitted1 0 = None \<or> mcpTransports admitted1 ''acme'' = None"
    by (simp add: admitted1_eq)
  have b: "sessionId_of session1 0 = None \<or> mcpTransports session1 ''zeta'' = None"
    by (simp add: session1_eq)
  from mcp_onclose_guard [OF a] mcp_onclose_guard [OF b] show ?thesis
    by (simp add: admitted1_eq session1_eq)
qed

end
